theory Spec2Isabelle
  imports Complex_Main "HOL-Library.Sublist"
begin

section \<open>Python values used by the scoring engine\<close>

subsection \<open>Strings\<close>

text \<open>
  A Python \<^verbatim>\<open>str\<close> is a \<^typ>\<open>string\<close>. The test \<^verbatim>\<open>needle in haystack\<close> on two
  strings is the substring test: some suffix of the haystack starts with the needle.
\<close>

fun py_in :: "string \<Rightarrow> string \<Rightarrow> bool" where
  "py_in needle [] = (needle = [])"
| "py_in needle (c # cs) = (prefix needle (c # cs) \<or> py_in needle cs)"

text \<open>
  \<^verbatim>\<open>s.lower()\<close>. The model lower-cases the letters A to Z and leaves every other
  character alone. Python also lower-cases letters outside ASCII; the only use of
  \<^verbatim>\<open>lower\<close> in the modelled code is the search for \<^verbatim>\<open>exon20\<close>, and no
  character outside ASCII lower-cases to one of its six characters.
\<close>

definition lower_char :: "char \<Rightarrow> char" where
  "lower_char c =
     (case map_of (zip ''ABCDEFGHIJKLMNOPQRSTUVWXYZ'' ''abcdefghijklmnopqrstuvwxyz'') c of
        Some l \<Rightarrow> l
      | None \<Rightarrow> c)"

definition lower :: "string \<Rightarrow> string" where
  "lower s = map lower_char s"

text \<open>\<^verbatim>\<open>mutation.split(':')[0]\<close>: the text before the first colon, all of it if there is none.\<close>

definition split_colon_first :: "string \<Rightarrow> string" where
  "split_colon_first s = takeWhile (\<lambda>c. c \<noteq> CHR '':'') s"

text \<open>\<^verbatim>\<open>str(n)\<close> for an \<^verbatim>\<open>int\<close>: the decimal digits, with a minus sign below zero.\<close>

definition digit_char :: "nat \<Rightarrow> char" where
  "digit_char d = ''0123456789'' ! d"

function str_nat :: "nat \<Rightarrow> string" where
  "str_nat n = (if n < 10 then [digit_char n] else str_nat (n div 10) @ [digit_char (n mod 10)])"
  by pat_completeness auto
termination
  by (relation "measure id") auto

definition str_int :: "int \<Rightarrow> string" where
  "str_int i = (if i < 0 then CHR ''-'' # str_nat (nat (- i)) else str_nat (nat i))"

text \<open>\<^verbatim>\<open>d.get(key, "")\<close> on an optional string field.\<close>

definition get_or_empty :: "string option \<Rightarrow> string" where
  "get_or_empty v = (case v of None \<Rightarrow> [] | Some s \<Rightarrow> s)"

subsection \<open>Numbers: \<^verbatim>\<open>int\<close> and \<^verbatim>\<open>float\<close>\<close>

text \<open>
  The score starts as the \<^verbatim>\<open>int\<close> 2 and becomes a \<^verbatim>\<open>float\<close> as soon as a literal
  such as \<^verbatim>\<open>0.5\<close> is added. A \<^verbatim>\<open>float\<close> is an IEEE 754 binary64 number; the model
  keeps its exact value as a rational. Every operation computes the exact result and
  rounds it to 53 significant bits, ties to the even significand. The exponent is not
  bounded in the model: the scores stay between 1 and 5, far from overflow and from the
  subnormal range.

  \<open>round_half_even\<close> is the nearest integer, a tie going to the even neighbour.
\<close>

definition round_half_even :: "rat \<Rightarrow> int" where
  "round_half_even x =
     (let f = \<lfloor>x\<rfloor>; d = x - of_int f
      in if d < 1 / 2 then f
         else if 1 / 2 < d then f + 1
         else if even f then f else f + 1)"

lemma ceiling_half_less:
  fixes r :: rat
  assumes "2 \<le> r"
  shows "\<lceil>r / 2\<rceil> < \<lceil>r\<rceil>"
proof -
  have "of_int \<lceil>r / 2\<rceil> < r / 2 + 1" by linarith
  also have "\<dots> \<le> r" using assms by simp
  also have "\<dots> \<le> of_int \<lceil>r\<rceil>" by linarith
  finally show ?thesis by simp
qed

text \<open>
  The unit in the last place of a positive \<open>x\<close> with \<open>2 ^ e \<le> x < 2 ^ (e + 1)\<close> is
  \<open>2 ^ (e - 52)\<close>. The search starts at the unit of the binade of 1 and doubles it while
  \<open>x\<close> lies above the binade, then halves it while \<open>x\<close> lies below.
\<close>

function ulp_up :: "rat \<Rightarrow> rat \<Rightarrow> rat" where
  "ulp_up u x = (if 0 < u \<and> 2 ^ 53 * u \<le> x then ulp_up (2 * u) x else u)"
  by pat_completeness auto
termination
proof (relation "measure (\<lambda>(u, x). nat \<lceil>x / u\<rceil>)")
  show "wf (measure (\<lambda>(u, x). nat \<lceil>x / u\<rceil>))" by simp
next
  fix u x :: rat
  assume a: "0 < u \<and> 2 ^ 53 * u \<le> x"
  then have "2 ^ 53 \<le> x / u" by (simp add: pos_le_divide_eq)
  then have r2: "2 \<le> x / u" by simp
  have e: "x / (2 * u) = (x / u) / 2" by simp
  have "\<lceil>(x / u) / 2\<rceil> < \<lceil>x / u\<rceil>" using r2 by (rule ceiling_half_less)
  then have "\<lceil>x / (2 * u)\<rceil> < \<lceil>x / u\<rceil>" by (simp only: e)
  moreover have "0 < \<lceil>x / u\<rceil>" using r2 by simp
  ultimately have "nat \<lceil>x / (2 * u)\<rceil> < nat \<lceil>x / u\<rceil>" by linarith
  then show "((2 * u, x), (u, x)) \<in> measure (\<lambda>(u, x). nat \<lceil>x / u\<rceil>)"
    by (simp only: in_measure split_conv)
qed

function ulp_down :: "rat \<Rightarrow> rat \<Rightarrow> rat" where
  "ulp_down u x = (if 0 < x \<and> x < 2 ^ 52 * u then ulp_down (u / 2) x else u)"
  by pat_completeness auto
termination
proof (relation "measure (\<lambda>(u, x). nat \<lceil>2 ^ 53 * u / x\<rceil>)")
  show "wf (measure (\<lambda>(u, x). nat \<lceil>2 ^ 53 * u / x\<rceil>))" by simp
next
  fix u x :: rat
  assume a: "0 < x \<and> x < 2 ^ 52 * u"
  then have "1 < 2 ^ 52 * u / x" by (simp add: pos_less_divide_eq)
  then have r2: "2 \<le> 2 ^ 53 * u / x" by simp
  have e: "2 ^ 53 * (u / 2) / x = (2 ^ 53 * u / x) / 2" by simp
  have "\<lceil>(2 ^ 53 * u / x) / 2\<rceil> < \<lceil>2 ^ 53 * u / x\<rceil>"
    using r2 by (rule ceiling_half_less)
  then have "\<lceil>2 ^ 53 * (u / 2) / x\<rceil> < \<lceil>2 ^ 53 * u / x\<rceil>" by (simp only: e)
  moreover have "0 < \<lceil>2 ^ 53 * u / x\<rceil>" using r2 by simp
  ultimately have "nat \<lceil>2 ^ 53 * (u / 2) / x\<rceil> < nat \<lceil>2 ^ 53 * u / x\<rceil>"
    by linarith
  then show "((u / 2, x), (u, x)) \<in> measure (\<lambda>(u, x). nat \<lceil>2 ^ 53 * u / x\<rceil>)"
    by (simp only: in_measure split_conv)
qed

definition ulp :: "rat \<Rightarrow> rat" where
  "ulp x = ulp_down (ulp_up (1 / 2 ^ 52) \<bar>x\<bar>) \<bar>x\<bar>"

definition to_double :: "rat \<Rightarrow> rat" where
  "to_double x = (if x = 0 then 0 else of_int (round_half_even (x / ulp x)) * ulp x)"

datatype pynum = PyInt int | PyFloat rat

text \<open>
  A decimal literal denotes the double nearest to it. The literals of the scorers have one
  decimal place: \<open>float_tenths 5\<close>, \<open>float_tenths 3\<close> and \<open>float_tenths 4\<close> are
  \<^verbatim>\<open>0.5\<close>, \<^verbatim>\<open>0.3\<close> and \<^verbatim>\<open>0.4\<close>.
\<close>

definition float_tenths :: "int \<Rightarrow> pynum" where
  "float_tenths k = PyFloat (to_double (of_int k / 10))"

text \<open>
  \<^verbatim>\<open>a + b\<close> and \<^verbatim>\<open>a - b\<close>: two ints give an int; otherwise the int operand is converted
  to a float and the exact result is rounded once.
\<close>

fun as_float :: "pynum \<Rightarrow> rat" where
  "as_float (PyInt i) = to_double (of_int i)"
| "as_float (PyFloat x) = x"

fun py_add :: "pynum \<Rightarrow> pynum \<Rightarrow> pynum" where
  "py_add (PyInt a) (PyInt b) = PyInt (a + b)"
| "py_add a b = PyFloat (to_double (as_float a + as_float b))"

fun py_sub :: "pynum \<Rightarrow> pynum \<Rightarrow> pynum" where
  "py_sub (PyInt a) (PyInt b) = PyInt (a - b)"
| "py_sub a b = PyFloat (to_double (as_float a - as_float b))"

text \<open>
  \<^verbatim>\<open>round(x)\<close> with one argument returns an \<^verbatim>\<open>int\<close>: the int itself, or the integer nearest
  to the exact value of the float, ties to even.
\<close>

fun py_round :: "pynum \<Rightarrow> int" where
  "py_round (PyInt i) = i"
| "py_round (PyFloat x) = round_half_even x"

text \<open>The exact value of a number, for statements about the score.\<close>

fun py_value :: "pynum \<Rightarrow> rat" where
  "py_value (PyInt i) = of_int i"
| "py_value (PyFloat x) = x"

section \<open>The alteration record\<close>

text \<open>
  The functions take \<^verbatim>\<open>row\<close>, a dict or a pandas Series. Keys that the code reads
  without a test are fields; keys whose presence the code tests
  (\<^verbatim>\<open>'high_expression' in row\<close>, \<^verbatim>\<open>'structural_variants' in row\<close>) are optional
  fields, and \<^verbatim>\<open>study_of_origin\<close> may hold \<^verbatim>\<open>None\<close>. A function ignores the fields it
  does not read.
\<close>

record patient_row =
  gene_amplifications :: "string list"
  gene_deletions :: "string list"
  gene_mutations :: "string list"
  high_expression :: "string list option"
  structural_variants :: "string list option"
  study_of_origin :: "string option"
  breast_cancer_subtype :: string
  lung_cancer_subtype :: string
  optimal_therapy_level :: int

section \<open>Breast cancer: subtype and therapy level\<close>

text \<open>\<^verbatim>\<open>classify_breast_cancer_subtype\<close>, src/modules/breast_cancer.py lines 8 to 34.\<close>

definition classify_breast_cancer_subtype :: "patient_row \<Rightarrow> string" where
  "classify_breast_cancer_subtype row =
     (let her2_positive =
            (''ERBB2'' \<in> set (gene_amplifications row) \<or>
             (case high_expression row of None \<Rightarrow> False | Some h \<Rightarrow> ''ERBB2'' \<in> set h));
          er_positive =
            ((case high_expression row of None \<Rightarrow> False | Some h \<Rightarrow> ''ESR1'' \<in> set h) \<or>
             ''ESR1'' \<in> set (gene_amplifications row))
      in if er_positive \<and> \<not> her2_positive then ''Luminal A/B''
         else if er_positive \<and> her2_positive then ''Luminal HER2+''
         else if \<not> er_positive \<and> her2_positive then ''HER2 Enriched''
         else ''Triple Negative'')"

text \<open>
  \<^verbatim>\<open>determine_breast_therapy_level\<close>, lines 36 to 78. \<open>breast_base_level\<close> is the value
  of the variable \<^verbatim>\<open>base_level\<close> when line 78 is reached; the function returns
  \<^verbatim>\<open>max(1, min(4, round(base_level)))\<close>.
\<close>

definition breast_base_level :: "patient_row \<Rightarrow> pynum" where
  "breast_base_level row =
     (let base_level = PyInt 2;
          subtype = breast_cancer_subtype row;
          base_level =
            (if subtype = ''Triple Negative'' then py_add base_level (PyInt 1)
             else if subtype = ''HER2 Enriched'' then py_add base_level (float_tenths 5)
             else if subtype = ''Luminal A/B'' then py_sub base_level (float_tenths 5)
             else base_level);
          tp53_mutated = list_ex (\<lambda>mutation. py_in ''TP53'' mutation) (gene_mutations row);
          base_level =
            (if tp53_mutated then py_add base_level (float_tenths 5) else base_level);
          brca_mutated =
            list_ex (\<lambda>mutation. py_in ''BRCA1'' mutation \<or> py_in ''BRCA2'' mutation)
              (gene_mutations row);
          base_level =
            (if brca_mutated then py_add base_level (float_tenths 5) else base_level);
          base_level =
            (if ''MYC'' \<in> set (gene_amplifications row) \<or> ''CCND1'' \<in> set (gene_amplifications row)
             then py_add base_level (float_tenths 3) else base_level);
          base_level =
            (if ''PTEN'' \<in> set (gene_deletions row) \<or> ''RB1'' \<in> set (gene_deletions row)
             then py_add base_level (float_tenths 4) else base_level)
      in base_level)"

definition determine_breast_therapy_level :: "patient_row \<Rightarrow> int" where
  "determine_breast_therapy_level row = max 1 (min 4 (py_round (breast_base_level row)))"

section \<open>Lung cancer: subtype and therapy level\<close>

text \<open>
  \<^verbatim>\<open>classify_lung_cancer_subtype\<close>, src/modules/lung_cancer.py lines 8 to 52. In
  \<^verbatim>\<open>any(.. mutations) or any(.. structural_variants) if 'structural_variants' in row else False\<close>
  the conditional expression binds weaker than \<^verbatim>\<open>or\<close>: without the key the whole
  flag is \<^verbatim>\<open>False\<close>, whatever the mutations are. \<^verbatim>\<open>str(cancer_type)\<close> of a string
  is the string.
\<close>

definition classify_lung_cancer_subtype :: "patient_row \<Rightarrow> string" where
  "classify_lung_cancer_subtype row =
     (case study_of_origin row of
        None \<Rightarrow> ''Unknown''
      | Some cancer_type \<Rightarrow>
          (let base_type =
                 (if py_in ''Lung Adenocarcinoma'' cancer_type then ''LUAD''
                  else if py_in ''Lung Squamous Cell Carcinoma'' cancer_type then ''LUSC''
                  else ''Unknown'');
               has_egfr_alteration =
                 (case structural_variants row of
                    Some svs \<Rightarrow>
                      list_ex (\<lambda>m. py_in ''EGFR'' m) (gene_mutations row) \<or>
                      list_ex (\<lambda>sv. py_in ''EGFR'' sv) svs
                  | None \<Rightarrow> False);
               has_alk_alteration =
                 (case structural_variants row of
                    Some svs \<Rightarrow>
                      list_ex (\<lambda>m. py_in ''ALK'' m) (gene_mutations row) \<or>
                      list_ex (\<lambda>sv. py_in ''ALK'' sv) svs
                  | None \<Rightarrow> False);
               has_ros1_alteration =
                 (case structural_variants row of
                    Some svs \<Rightarrow>
                      list_ex (\<lambda>m. py_in ''ROS1'' m) (gene_mutations row) \<or>
                      list_ex (\<lambda>sv. py_in ''ROS1'' sv) svs
                  | None \<Rightarrow> False);
               has_kras_mutation = list_ex (\<lambda>m. py_in ''KRAS'' m) (gene_mutations row)
           in if base_type = ''LUAD'' then
                (if has_egfr_alteration then ''LUAD EGFR-mutated''
                 else if has_alk_alteration then ''LUAD ALK-rearranged''
                 else if has_ros1_alteration then ''LUAD ROS1-rearranged''
                 else if has_kras_mutation then ''LUAD KRAS-mutated''
                 else ''LUAD Other'')
              else if base_type = ''LUSC'' then ''LUSC''
              else ''Unknown''))"

text \<open>
  \<^verbatim>\<open>determine_lung_therapy_level\<close>, lines 54 to 88; \<open>lung_base_level\<close> is
  \<^verbatim>\<open>base_level\<close> at line 88.
\<close>

definition lung_base_level :: "patient_row \<Rightarrow> pynum" where
  "lung_base_level row =
     (let base_level = PyInt 2;
          subtype = lung_cancer_subtype row;
          base_level =
            (if subtype = ''LUAD EGFR-mutated'' then
               (let has_resistance_mutation =
                      (list_ex (\<lambda>m. py_in ''T790M'' m) (gene_mutations row) \<or>
                       list_ex (\<lambda>m. py_in ''C797S'' m) (gene_mutations row))
                in if has_resistance_mutation then py_add base_level (PyInt 1) else base_level)
             else if subtype = ''LUAD ALK-rearranged'' \<or> subtype = ''LUAD ROS1-rearranged''
               then py_add base_level (float_tenths 5)
             else if subtype = ''LUAD KRAS-mutated'' then
               (let has_g12c = list_ex (\<lambda>m. py_in ''G12C'' m) (gene_mutations row)
                in if \<not> has_g12c then py_add base_level (float_tenths 5) else base_level)
             else base_level);
          tp53_mutated = list_ex (\<lambda>mutation. py_in ''TP53'' mutation) (gene_mutations row);
          base_level =
            (if tp53_mutated then py_add base_level (float_tenths 5) else base_level)
      in base_level)"

definition determine_lung_therapy_level :: "patient_row \<Rightarrow> int" where
  "determine_lung_therapy_level row = max 1 (min 4 (py_round (lung_base_level row)))"

section \<open>The knowledge base\<close>

text \<open>
  The knowledge base is the nested dict read from the JSON file, or the built-in default.
  The model keeps the keys that the recommendation functions read. A key read with
  \<^verbatim>\<open>[...]\<close> is a field; a key read with \<^verbatim>\<open>.get(key, "")\<close> or guarded by
  \<^verbatim>\<open>key in d\<close> is an optional field; \<^verbatim>\<open>subtypes\<close>, \<^verbatim>\<open>therapy_levels\<close> and
  \<^verbatim>\<open>special_biomarkers\<close> are dicts keyed by strings.
\<close>

record recommendation =
  therapy :: string
  details :: "string option"

record level_entry =
  recommendations :: "recommendation list"

record subtype_entry =
  therapy_levels :: "string \<rightharpoonup> level_entry"

record therapy_option =
  name :: string
  indication :: "string option"

record biomarker_entry =
  therapy_options :: "therapy_option list option"

record knowledge_base =
  subtypes :: "string \<rightharpoonup> subtype_entry"
  special_biomarkers :: "string \<rightharpoonup> biomarker_entry"

type_synonym rec_pair = "string \<times> string"

text \<open>
  \<^verbatim>\<open>list(set(xs))\<close> removes duplicates; the order of the result is the order in which
  Python iterates the set, which depends on the hash values of the elements (for strings
  these change from one process to the next). The resolvers take that order as their
  first argument \<open>list_set\<close>: a function that returns the elements of its argument, each
  once. \<open>set_order\<close> says that a function is such an order.
\<close>

definition set_order :: "(rec_pair list \<Rightarrow> rec_pair list) \<Rightarrow> bool" where
  "set_order list_set = (\<forall>xs. distinct (list_set xs) \<and> set (list_set xs) = set xs)"

section \<open>Breast cancer: recommendations\<close>

text \<open>
  The body of each of the three loops of \<^verbatim>\<open>get_breast_cancer_recommendations\<close>
  (src/modules/breast_cancer.py lines 119 to 127, 131 to 139, 143 to 151): look the
  biomarker key up and append the (name, indication) pair of each therapy option.
\<close>

definition probe_biomarker :: "knowledge_base \<Rightarrow> string \<Rightarrow> rec_pair list \<Rightarrow> rec_pair list" where
  "probe_biomarker kb biomarker_key special_recommendations =
     (case special_biomarkers kb biomarker_key of
        None \<Rightarrow> special_recommendations
      | Some biomarker_data \<Rightarrow>
          (case therapy_options biomarker_data of
             None \<Rightarrow> special_recommendations
           | Some opts \<Rightarrow>
               special_recommendations
               @ map (\<lambda>therapy. (name therapy, get_or_empty (indication therapy))) opts))"

text \<open>A loop over a gene list; \<open>key_of\<close> builds the biomarker key of an element.\<close>

fun probe_each ::
  "knowledge_base \<Rightarrow> (string \<Rightarrow> string) \<Rightarrow> string list \<Rightarrow> rec_pair list \<Rightarrow> rec_pair list" where
  "probe_each kb key_of [] special_recommendations = special_recommendations"
| "probe_each kb key_of (g # gs) special_recommendations =
     probe_each kb key_of gs (probe_biomarker kb (key_of g) special_recommendations)"

definition mutation_key :: "string \<Rightarrow> string" where
  "mutation_key mutation = split_colon_first mutation @ ''_mutation''"

definition amplification_key :: "string \<Rightarrow> string" where
  "amplification_key gene = gene @ ''_amplification''"

definition loss_key :: "string \<Rightarrow> string" where
  "loss_key gene = gene @ ''_loss''"

text \<open>
  \<^verbatim>\<open>get_breast_cancer_recommendations\<close>, src/modules/breast_cancer.py lines 80 to 156;
  src/utils/therapy_recommender.py lines 23 to 97 repeat the same statements.
\<close>

definition get_breast_cancer_recommendations ::
  "(rec_pair list \<Rightarrow> rec_pair list) \<Rightarrow> patient_row \<Rightarrow> knowledge_base
     \<Rightarrow> rec_pair list \<times> rec_pair list" where
  "get_breast_cancer_recommendations list_set patient_data kb =
     (let subtype = breast_cancer_subtype patient_data;
          therapy_level = optimal_therapy_level patient_data;
          level_str = str_int therapy_level
      in case subtypes kb subtype of
           None \<Rightarrow> ([], [])
         | Some entry \<Rightarrow>
             (case therapy_levels entry level_str of
                None \<Rightarrow> ([], [])
              | Some therapy_data \<Rightarrow>
                  (let recs = map (\<lambda>rec. (therapy rec, get_or_empty (details rec)))
                                (recommendations therapy_data);
                       special = probe_each kb mutation_key (gene_mutations patient_data) [];
                       special = probe_each kb amplification_key
                                   (gene_amplifications patient_data) special;
                       special = probe_each kb loss_key (gene_deletions patient_data) special
                   in (recs, list_set special))))"

section \<open>Lung cancer: recommendations\<close>

text \<open>
  \<^verbatim>\<open>get_lung_cancer_recommendations\<close>, src/modules/lung_cancer.py lines 90 to 183;
  src/utils/therapy_recommender.py lines 99 to 190 repeat the same statements, and that
  copy is the one \<^verbatim>\<open>get_therapy_recommendations\<close> calls. The two lists are built by
  \<^verbatim>\<open>append\<close> in the order of the statements. \<^verbatim>\<open>knowledge_base\<close> is a parameter of the
  function, and \<^verbatim>\<open>level_str\<close> is computed and not used.
\<close>

definition get_lung_cancer_recommendations ::
  "(rec_pair list \<Rightarrow> rec_pair list) \<Rightarrow> patient_row \<Rightarrow> knowledge_base
     \<Rightarrow> rec_pair list \<times> rec_pair list" where
  "get_lung_cancer_recommendations list_set patient_data kb =
     (let subtype = lung_cancer_subtype patient_data;
          therapy_level = optimal_therapy_level patient_data;
          mutations = gene_mutations patient_data
      in if py_in ''EGFR-mutated'' subtype then
           (let has_exon20 = list_ex (\<lambda>m. py_in ''exon20'' (lower m)) mutations;
                has_t790m = list_ex (\<lambda>m. py_in ''T790M'' m) mutations
            in ([(''EGFR TKI Therapy'', ''Osimertinib preferred for first-line'')]
                @ (if 3 \<le> therapy_level
                   then [(''EGFR TKI + Anti-angiogenic'', ''Consider Osimertinib + Bevacizumab'')]
                   else [])
                @ (if 4 \<le> therapy_level
                   then [(''Combination Therapy'', ''EGFR TKI + chemotherapy (platinum-pemetrexed)''),
                         (''Clinical Trial'', ''Novel approaches for EGFR resistance'')]
                   else []),
                list_set
                  ((if has_exon20
                    then [(''Amivantamab'', ''FDA-approved for EGFR exon20 insertion mutations'')]
                    else [])
                   @ (if has_t790m
                      then [(''Osimertinib'', ''Effective against T790M resistance mutation'')]
                      else []))))
         else if py_in ''ALK-rearranged'' subtype then
           ([(''ALK TKI Therapy'', ''Alectinib preferred for first-line'')]
            @ (if 4 \<le> therapy_level
               then [(''Combination Therapy'', ''Consider ALK TKI + chemotherapy''),
                     (''Clinical Trial'', ''Novel approaches for ALK resistance'')]
               else []),
            list_set
              (if 3 \<le> therapy_level
               then [(''Lorlatinib'', ''For resistant disease or brain metastases'')]
               else []))
         else if py_in ''ROS1-rearranged'' subtype then
           ([(''ROS1 TKI Therapy'', ''Entrectinib (preferred if CNS disease) or Crizotinib'')]
            @ (if 4 \<le> therapy_level
               then [(''Clinical Trial'', ''Novel approaches for ROS1+ disease'')]
               else []),
            list_set
              (if 3 \<le> therapy_level
               then [(''Lorlatinib or Repotrectinib'', ''For resistant disease'')]
               else []))
         else if py_in ''KRAS-mutated'' subtype then
           (let has_g12c = list_ex (\<lambda>m. py_in ''G12C'' m) mutations
            in ((if therapy_level = 1
                 then [(''Immunotherapy'', ''Pembrolizumab for PD-L1 >50%'')]
                 else if therapy_level = 2
                 then [(''Chemo-Immunotherapy'', ''Platinum doublet + Pembrolizumab'')]
                 else if 3 \<le> therapy_level
                 then [(''Intensive Chemotherapy'',
                        ''Platinum doublet + Pembrolizumab + Bevacizumab'')]
                 else [])
                @ (if 4 \<le> therapy_level
                   then [(''Clinical Trial'', ''Novel KRAS inhibitors or combinations'')]
                   else []),
                list_set
                  (if has_g12c
                   then [(''Sotorasib or Adagrasib'', ''FDA-approved for KRAS G12C mutation'')]
                   else [])))
         else
           ((if therapy_level = 1
             then [(''Immunotherapy'', ''Pembrolizumab for PD-L1 >50%'')]
             else if therapy_level = 2
             then [(''Chemo-Immunotherapy'', ''Platinum doublet + Pembrolizumab'')]
             else if 3 \<le> therapy_level
             then [(''Intensive Chemotherapy'',
                    ''Platinum doublet + Pembrolizumab + additional agent'')]
             else [])
            @ (if 4 \<le> therapy_level
               then [(''Clinical Trial'', ''Novel approaches or combinations''),
                     (''Docetaxel + Ramucirumab'', ''For refractory disease'')]
               else []),
            list_set []))"

section \<open>The specification's formulas\<close>

text \<open>
  Section 4.1 of the specification, breast cancer: the two receptor flags, with an absent
  \<^verbatim>\<open>high_expression\<close> read as the empty set.
\<close>

definition high_expression_set :: "patient_row \<Rightarrow> string set" where
  "high_expression_set row = (case high_expression row of None \<Rightarrow> {} | Some h \<Rightarrow> set h)"

definition spec_her2_positive :: "patient_row \<Rightarrow> bool" where
  "spec_her2_positive row =
     (''ERBB2'' \<in> set (gene_amplifications row) \<or> ''ERBB2'' \<in> high_expression_set row)"

definition spec_er_positive :: "patient_row \<Rightarrow> bool" where
  "spec_er_positive row =
     (''ESR1'' \<in> high_expression_set row \<or> ''ESR1'' \<in> set (gene_amplifications row))"

text \<open>
  Section 4.1, lung cancer: an absent \<^verbatim>\<open>structural_variants\<close> is read as the empty
  sequence; EGFR, ALK and ROS1 are searched in the mutations and the structural variants,
  KRAS in the mutations only.
\<close>

definition spec_lung_subtype :: "patient_row \<Rightarrow> string" where
  "spec_lung_subtype row =
     (case study_of_origin row of
        None \<Rightarrow> ''Unknown''
      | Some study \<Rightarrow>
          if py_in ''Lung Adenocarcinoma'' study then
            (let variants = (case structural_variants row of None \<Rightarrow> [] | Some svs \<Rightarrow> svs);
                 alterations = gene_mutations row @ variants
             in if list_ex (\<lambda>a. py_in ''EGFR'' a) alterations then ''LUAD EGFR-mutated''
                else if list_ex (\<lambda>a. py_in ''ALK'' a) alterations then ''LUAD ALK-rearranged''
                else if list_ex (\<lambda>a. py_in ''ROS1'' a) alterations then ''LUAD ROS1-rearranged''
                else if list_ex (\<lambda>m. py_in ''KRAS'' m) (gene_mutations row)
                  then ''LUAD KRAS-mutated''
                else ''LUAD Other'')
          else if py_in ''Lung Squamous Cell Carcinoma'' study then ''LUSC''
          else ''Unknown'')"

text \<open>
  Section 4.2: the additive score in exact arithmetic, then rounding to the nearest
  integer (ties to even) and the clamp to 1..4.
\<close>

definition spec_level :: "rat \<Rightarrow> int" where
  "spec_level x = max 1 (min 4 (round_half_even x))"

definition spec_breast_score :: "patient_row \<Rightarrow> rat" where
  "spec_breast_score row =
     2 + (if breast_cancer_subtype row = ''Triple Negative'' then 1
          else if breast_cancer_subtype row = ''HER2 Enriched'' then 5 / 10
          else if breast_cancer_subtype row = ''Luminal A/B'' then - (5 / 10)
          else 0)
       + (if list_ex (\<lambda>m. py_in ''TP53'' m) (gene_mutations row) then 5 / 10 else 0)
       + (if list_ex (\<lambda>m. py_in ''BRCA1'' m \<or> py_in ''BRCA2'' m) (gene_mutations row)
          then 5 / 10 else 0)
       + (if ''MYC'' \<in> set (gene_amplifications row) \<or> ''CCND1'' \<in> set (gene_amplifications row)
          then 3 / 10 else 0)
       + (if ''PTEN'' \<in> set (gene_deletions row) \<or> ''RB1'' \<in> set (gene_deletions row)
          then 4 / 10 else 0)"

definition spec_lung_score :: "patient_row \<Rightarrow> rat" where
  "spec_lung_score row =
     2 + (if lung_cancer_subtype row = ''LUAD EGFR-mutated'' \<and>
             (list_ex (\<lambda>m. py_in ''T790M'' m) (gene_mutations row) \<or>
              list_ex (\<lambda>m. py_in ''C797S'' m) (gene_mutations row)) then 1
          else if lung_cancer_subtype row = ''LUAD ALK-rearranged'' \<or>
                  lung_cancer_subtype row = ''LUAD ROS1-rearranged'' then 5 / 10
          else if lung_cancer_subtype row = ''LUAD KRAS-mutated'' \<and>
                  \<not> list_ex (\<lambda>m. py_in ''G12C'' m) (gene_mutations row) then 5 / 10
          else 0)
       + (if list_ex (\<lambda>m. py_in ''TP53'' m) (gene_mutations row) then 5 / 10 else 0)"

text \<open>Section 4.3: the biomarker keys that a record probes.\<close>

definition biomarker_keys :: "patient_row \<Rightarrow> string set" where
  "biomarker_keys row =
     mutation_key ` set (gene_mutations row)
     \<union> amplification_key ` set (gene_amplifications row)
     \<union> loss_key ` set (gene_deletions row)"

section \<open>Auxiliary definitions for the proofs\<close>

text \<open>
  A score is a sum of halves until the two adjustments by 0.3 and 0.4. \<open>half_grid\<close>
  holds the values such a sum can take; \<open>breast_halves\<close> is \<^verbatim>\<open>base_level\<close> of
  \<^verbatim>\<open>determine_breast_therapy_level\<close> after the BRCA adjustment (line 67), and
  \<open>add_if\<close> is one conditional adjustment.
\<close>

definition half_grid :: "rat set" where
  "half_grid = {3 / 2, 2, 5 / 2, 3, 7 / 2, 4}"

definition add_if :: "bool \<Rightarrow> pynum \<Rightarrow> pynum \<Rightarrow> pynum" where
  "add_if c q x = (if c then py_add x q else x)"

definition breast_halves :: "patient_row \<Rightarrow> pynum" where
  "breast_halves row =
     (let base_level = PyInt 2;
          subtype = breast_cancer_subtype row;
          base_level =
            (if subtype = ''Triple Negative'' then py_add base_level (PyInt 1)
             else if subtype = ''HER2 Enriched'' then py_add base_level (float_tenths 5)
             else if subtype = ''Luminal A/B'' then py_sub base_level (float_tenths 5)
             else base_level);
          tp53_mutated = list_ex (\<lambda>mutation. py_in ''TP53'' mutation) (gene_mutations row);
          base_level = (if tp53_mutated then py_add base_level (float_tenths 5) else base_level);
          brca_mutated =
            list_ex (\<lambda>mutation. py_in ''BRCA1'' mutation \<or> py_in ''BRCA2'' mutation)
              (gene_mutations row);
          base_level = (if brca_mutated then py_add base_level (float_tenths 5) else base_level)
      in base_level)"

section \<open>Example records and an example knowledge base\<close>

definition blank_row :: patient_row where
  "blank_row =
     \<lparr>gene_amplifications = [], gene_deletions = [], gene_mutations = [],
      high_expression = None, structural_variants = None, study_of_origin = None,
      breast_cancer_subtype = [], lung_cancer_subtype = [], optimal_therapy_level = 2\<rparr>"

definition example_kb :: knowledge_base where
  "example_kb =
     \<lparr>subtypes =
        [''Triple Negative'' \<mapsto>
           \<lparr>therapy_levels =
              [''2'' \<mapsto>
                 \<lparr>recommendations =
                    [\<lparr>therapy = ''Chemotherapy'', details = Some ''Anthracycline and taxane''\<rparr>,
                     \<lparr>therapy = ''Surgery'', details = None\<rparr>]\<rparr>]\<rparr>],
      special_biomarkers =
        [''BRCA1_mutation'' \<mapsto>
           \<lparr>therapy_options =
              Some [\<lparr>name = ''PARP inhibitor'', indication = Some ''Germline BRCA mutation''\<rparr>]\<rparr>,
         ''BRCA2_mutation'' \<mapsto>
           \<lparr>therapy_options =
              Some [\<lparr>name = ''PARP inhibitor'', indication = Some ''Germline BRCA mutation''\<rparr>]\<rparr>,
         ''ERBB2_amplification'' \<mapsto>
           \<lparr>therapy_options = Some [\<lparr>name = ''Trastuzumab'', indication = None\<rparr>]\<rparr>,
         ''PTEN_loss'' \<mapsto> \<lparr>therapy_options = None\<rparr>]\<rparr>"

section \<open>The substring test\<close>

text \<open>\<open>py_in\<close> holds exactly when the needle is a contiguous part of the haystack.\<close>

lemma py_in_sublist: "py_in needle haystack = sublist needle haystack"
  by (induction haystack) (simp_all add: sublist_Cons_right)

lemma py_in_iff: "py_in needle haystack \<longleftrightarrow> (\<exists>before after. haystack = before @ needle @ after)"
  by (simp add: py_in_sublist sublist_def)

section \<open>Doubles on the scores of the two scorers\<close>

text \<open>
  The values below are the doubles that Python computes, written as fractions
  (\<^verbatim>\<open>float.as_integer_ratio\<close>); each equation is checked by evaluating \<open>to_double\<close>.
\<close>

lemma floor_rat_numeral: "\<lfloor>numeral a / numeral b :: rat\<rfloor> = numeral a div numeral b"
  by (metis floor_divide_of_int_eq of_int_numeral)

lemmas double_eval = to_double_def ulp_def round_half_even_def Let_def floor_rat_numeral

lemma double_literals:
  "to_double (of_int 5 / 10) = 1 / 2"
  "to_double (of_int 3 / 10) = 5404319552844595 / 18014398509481984"
  "to_double (of_int 4 / 10) = 3602879701896397 / 9007199254740992"
  by (simp_all add: double_eval)

lemma double_grid:
  "to_double (3 / 2) = 3 / 2"
  "to_double (2) = 2"
  "to_double (5 / 2) = 5 / 2"
  "to_double (3) = 3"
  "to_double (7 / 2) = 7 / 2"
  "to_double (4) = 4"
  by (simp_all add: double_eval)

lemma double_plus_03:
  "to_double (3 / 2 + 5404319552844595 / 18014398509481984) = 8106479329266893 / 4503599627370496"
  "to_double (2 + 5404319552844595 / 18014398509481984) = 2589569785738035 / 1125899906842624"
  "to_double (5 / 2 + 5404319552844595 / 18014398509481984) = 3152519739159347 / 1125899906842624"
  "to_double (3 + 5404319552844595 / 18014398509481984) = 3715469692580659 / 1125899906842624"
  "to_double (7 / 2 + 5404319552844595 / 18014398509481984) = 4278419646001971 / 1125899906842624"
  "to_double (4 + 5404319552844595 / 18014398509481984) = 4841369599423283 / 1125899906842624"
  by (simp_all add: double_eval)

lemma double_plus_04:
  "to_double (3 / 2 + 3602879701896397 / 9007199254740992) = 4278419646001971 / 2251799813685248"
  "to_double (2 + 3602879701896397 / 9007199254740992) = 5404319552844595 / 2251799813685248"
  "to_double (5 / 2 + 3602879701896397 / 9007199254740992) = 6530219459687219 / 2251799813685248"
  "to_double (3 + 3602879701896397 / 9007199254740992) = 7656119366529843 / 2251799813685248"
  "to_double (7 / 2 + 3602879701896397 / 9007199254740992) = 8782019273372467 / 2251799813685248"
  "to_double (4 + 3602879701896397 / 9007199254740992) = 2476979795053773 / 562949953421312"
  by (simp_all add: double_eval)

lemma double_plus_03_04:
  "to_double (8106479329266893 / 4503599627370496 + 3602879701896397 / 9007199254740992) = 2476979795053773 / 1125899906842624"
  "to_double (2589569785738035 / 1125899906842624 + 3602879701896397 / 9007199254740992) = 6079859496950169 / 2251799813685248"
  "to_double (3152519739159347 / 1125899906842624 + 3602879701896397 / 9007199254740992) = 7205759403792793 / 2251799813685248"
  "to_double (3715469692580659 / 1125899906842624 + 3602879701896397 / 9007199254740992) = 8331659310635417 / 2251799813685248"
  "to_double (4278419646001971 / 1125899906842624 + 3602879701896397 / 9007199254740992) = 4728779608739021 / 1125899906842624"
  "to_double (4841369599423283 / 1125899906842624 + 3602879701896397 / 9007199254740992) = 5291729562160333 / 1125899906842624"
  by (simp_all add: double_eval)

lemma float_lits:
  "float_tenths 5 = PyFloat (1 / 2)"
  "float_tenths 3 = PyFloat (5404319552844595 / 18014398509481984)"
  "float_tenths 4 = PyFloat (3602879701896397 / 9007199254740992)"
  by (simp_all only: float_tenths_def double_literals)

lemma py_round_value: "py_round x = round_half_even (py_value x)"
  by (cases x) (simp_all add: round_half_even_def)

lemma to_double_grid: "v \<in> half_grid \<Longrightarrow> to_double v = v"
  unfolding half_grid_def by (elim insertE emptyE; hypsubst; rule double_grid)

lemma as_float_grid: "py_value x \<in> half_grid \<Longrightarrow> as_float x = py_value x"
  by (cases x) (simp_all add: to_double_grid)

lemma py_add_float: "py_add x (PyFloat c) = PyFloat (to_double (as_float x + c))"
  by (cases x) simp_all

lemma py_sub_float: "py_sub x (PyFloat c) = PyFloat (to_double (as_float x - c))"
  by (cases x) simp_all

lemma grid_03:
  assumes "v \<in> half_grid"
  shows "round_half_even (to_double (v + 5404319552844595 / 18014398509481984)) = round_half_even (v + 3 / 10)"
    and "to_double (v + 5404319552844595 / 18014398509481984) - of_int \<lfloor>to_double (v + 5404319552844595 / 18014398509481984)\<rfloor> \<noteq> 1 / 2"
  using assms unfolding half_grid_def
  by (elim insertE emptyE; hypsubst; simp only: double_plus_03;
      simp add: round_half_even_def floor_rat_numeral)+

lemma grid_04:
  assumes "v \<in> half_grid"
  shows "round_half_even (to_double (v + 3602879701896397 / 9007199254740992)) = round_half_even (v + 4 / 10)"
    and "to_double (v + 3602879701896397 / 9007199254740992) - of_int \<lfloor>to_double (v + 3602879701896397 / 9007199254740992)\<rfloor> \<noteq> 1 / 2"
  using assms unfolding half_grid_def
  by (elim insertE emptyE; hypsubst; simp only: double_plus_04;
      simp add: round_half_even_def floor_rat_numeral)+

lemma grid_03_04:
  assumes "v \<in> half_grid"
  shows "round_half_even (to_double (to_double (v + 5404319552844595 / 18014398509481984) + 3602879701896397 / 9007199254740992)) = round_half_even (v + 3 / 10 + 4 / 10)"
    and "to_double (to_double (v + 5404319552844595 / 18014398509481984) + 3602879701896397 / 9007199254740992) - of_int \<lfloor>to_double (to_double (v + 5404319552844595 / 18014398509481984) + 3602879701896397 / 9007199254740992)\<rfloor> \<noteq> 1 / 2"
  using assms unfolding half_grid_def
  by (elim insertE emptyE; hypsubst; simp only: double_plus_03 double_plus_03_04;
      simp add: round_half_even_def floor_rat_numeral)+

lemma inexact_steps:
  fixes a d :: bool
  assumes v: "py_value x \<in> half_grid"
  shows "py_round (add_if d (float_tenths 4) (add_if a (float_tenths 3) x)) =
           round_half_even (py_value x + (if a then 3 / 10 else 0) + (if d then 4 / 10 else 0))"
    and "a \<or> d \<Longrightarrow>
           py_value (add_if d (float_tenths 4) (add_if a (float_tenths 3) x))
             - of_int \<lfloor>py_value (add_if d (float_tenths 4) (add_if a (float_tenths 3) x))\<rfloor>
           \<noteq> 1 / 2"
proof -
  have af: "as_float x = py_value x" using v by (rule as_float_grid)
  note rw = add_if_def if_True if_False float_lits py_add_float as_float.simps af
    py_round_value py_value.simps add_0_right
  show "py_round (add_if d (float_tenths 4) (add_if a (float_tenths 3) x)) =
           round_half_even (py_value x + (if a then 3 / 10 else 0) + (if d then 4 / 10 else 0))"
    by (cases a; cases d)
      (simp_all only: rw grid_03 [OF v] grid_04 [OF v] grid_03_04 [OF v])
  show "py_value (add_if d (float_tenths 4) (add_if a (float_tenths 3) x))
             - of_int \<lfloor>py_value (add_if d (float_tenths 4) (add_if a (float_tenths 3) x))\<rfloor>
           \<noteq> 1 / 2" if "a \<or> d"
    using that grid_03 (2) [OF v] grid_04 (2) [OF v] grid_03_04 (2) [OF v]
    by (cases a; cases d) (simp_all only: rw not_False_eq_True simp_thms)
qed

lemma breast_base_level_steps:
  "breast_base_level row =
     add_if (''PTEN'' \<in> set (gene_deletions row) \<or> ''RB1'' \<in> set (gene_deletions row))
       (float_tenths 4)
       (add_if (''MYC'' \<in> set (gene_amplifications row) \<or> ''CCND1'' \<in> set (gene_amplifications row))
          (float_tenths 3) (breast_halves row))"
  by (simp add: breast_base_level_def breast_halves_def add_if_def Let_def)

lemma breast_halves_value:
  "py_value (breast_halves row) =
     2 + (if breast_cancer_subtype row = ''Triple Negative'' then 1
          else if breast_cancer_subtype row = ''HER2 Enriched'' then 5 / 10
          else if breast_cancer_subtype row = ''Luminal A/B'' then - (5 / 10)
          else 0)
       + (if list_ex (\<lambda>m. py_in ''TP53'' m) (gene_mutations row) then 5 / 10 else 0)
       + (if list_ex (\<lambda>m. py_in ''BRCA1'' m \<or> py_in ''BRCA2'' m) (gene_mutations row)
          then 5 / 10 else 0)"
  and breast_halves_grid: "py_value (breast_halves row) \<in> half_grid"
  by (simp_all add: breast_halves_def Let_def float_lits py_add_float py_sub_float double_grid
      half_grid_def)

lemma lung_base_level_value: "py_value (lung_base_level row) = spec_lung_score row"
  and lung_base_level_grid: "py_value (lung_base_level row) \<in> half_grid"
  by (simp_all add: lung_base_level_def spec_lung_score_def Let_def float_lits py_add_float
      double_grid half_grid_def)

lemma grid_tie:
  assumes "v \<in> half_grid" and "v - of_int \<lfloor>v\<rfloor> = 1 / 2"
  shows "even (max 1 (min 4 (round_half_even v)))"
    and "\<bar>of_int (max 1 (min 4 (round_half_even v))) - v\<bar> = 1 / 2"
  using assms unfolding half_grid_def
  by (elim insertE emptyE; hypsubst; simp add: round_half_even_def floor_rat_numeral)+

section \<open>The level is between 1 and 4\<close>

text \<open>
  C1. For every alteration record, whatever its amplifications, deletions, mutations,
  expression sets, structural variants, study of origin and subtype, both
  \<open>determine_breast_therapy_level\<close> and \<open>determine_lung_therapy_level\<close> return one of
  1, 2, 3, 4: the clamp holds however many adjustments stack.
\<close>

theorem therapy_level_in_range:
  "determine_breast_therapy_level row \<in> {1, 2, 3, 4} \<and>
   determine_lung_therapy_level row \<in> {1, 2, 3, 4}"
proof -
  have clamp: "max 1 (min 4 n) \<in> {1, 2, 3, 4}" for n :: int
    by (cases "n \<le> 1"; cases "4 \<le> n") (auto simp: max_def min_def)
  show ?thesis
    unfolding determine_breast_therapy_level_def determine_lung_therapy_level_def
    using clamp by blast
qed

section \<open>The level follows the additive formula\<close>

text \<open>
  C4. For every record, with its subtype assigned, the therapy level is the additive
  formula of the specification: the exact sum \<open>spec_breast_score\<close> or
  \<open>spec_lung_score\<close> (2, the subtype adjustment, and 0.5, 0.5, 0.3, 0.4 for the breast
  markers, 0.5 for TP53 in lung), rounded to the nearest integer with ties to even and
  clamped to 1..4. The code adds doubles; the rounded result is the same.
\<close>

theorem level_follows_additive_formula:
  "determine_breast_therapy_level row = spec_level (spec_breast_score row) \<and>
   determine_lung_therapy_level row = spec_level (spec_lung_score row)"
proof
  have "py_round (breast_base_level row) = round_half_even (spec_breast_score row)"
    unfolding breast_base_level_steps inexact_steps (1) [OF breast_halves_grid]
      breast_halves_value spec_breast_score_def ..
  then show "determine_breast_therapy_level row = spec_level (spec_breast_score row)"
    by (simp only: determine_breast_therapy_level_def spec_level_def)
next
  show "determine_lung_therapy_level row = spec_level (spec_lung_score row)"
    by (simp only: determine_lung_therapy_level_def spec_level_def py_round_value
        lung_base_level_value)
qed

section \<open>The breast classifier follows the priority table\<close>

text \<open>
  C2. For every breast record, \<open>classify_breast_cancer_subtype\<close> returns what the
  priority table says. With HER2 positive when ERBB2 is amplified or highly expressed and
  ER positive when ESR1 is highly expressed or amplified (an absent \<^verbatim>\<open>high_expression\<close>
  counting as empty), the result is Luminal A/B for ER without HER2, Luminal HER2+ for
  both, HER2 Enriched for HER2 without ER, and Triple Negative otherwise.
\<close>

theorem breast_subtype_priority_table:
  "classify_breast_cancer_subtype row =
     (if spec_er_positive row \<and> \<not> spec_her2_positive row then ''Luminal A/B''
      else if spec_er_positive row \<and> spec_her2_positive row then ''Luminal HER2+''
      else if \<not> spec_er_positive row \<and> spec_her2_positive row then ''HER2 Enriched''
      else ''Triple Negative'')"
proof (cases "high_expression row")
  case None
  then show ?thesis
    by (simp add: classify_breast_cancer_subtype_def spec_er_positive_def
        spec_her2_positive_def high_expression_set_def)
next
  case (Some h)
  then show ?thesis
    by (simp add: classify_breast_cancer_subtype_def spec_er_positive_def
        spec_her2_positive_def high_expression_set_def)
qed

section \<open>The lung classifier\<close>

text \<open>
  With the key \<^verbatim>\<open>structural_variants\<close> present the classifier follows the
  specification's table: the search over mutations and structural variants is the search
  over their concatenation.
\<close>

lemma classify_lung_with_structural_variants:
  assumes "structural_variants row = Some svs"
  shows "classify_lung_cancer_subtype row = spec_lung_subtype row"
proof (cases "study_of_origin row")
  case None
  then show ?thesis
    by (simp add: classify_lung_cancer_subtype_def spec_lung_subtype_def)
next
  case (Some study)
  with assms show ?thesis
    by (simp add: classify_lung_cancer_subtype_def spec_lung_subtype_def Let_def)
qed

text \<open>
  C3. The claim: for every lung record, an absent \<^verbatim>\<open>structural_variants\<close> counting as
  the empty sequence, the classifier returns Unknown for a null or unrecognised study of
  origin, LUSC for squamous cell carcinoma, and for adenocarcinoma the first of EGFR, ALK,
  ROS1 (mutations and structural variants), KRAS (mutations only), else LUAD Other.
  The code does not do this when the key is absent. The record below is an
  adenocarcinoma with the mutation \<^verbatim>\<open>EGFR:L858R\<close> and no \<^verbatim>\<open>structural_variants\<close> key:
  the claim gives \<^verbatim>\<open>LUAD EGFR-mutated\<close>, the code returns \<^verbatim>\<open>LUAD Other\<close>, because the
  conditional expression of lines 32 to 34 sets each flag to \<^verbatim>\<open>False\<close> when the key is
  missing, before the mutations are looked at.
\<close>

theorem lung_classifier_without_structural_variants:
  "classify_lung_cancer_subtype
     (blank_row\<lparr>study_of_origin := Some ''Lung Adenocarcinoma (TCGA, PanCancer Atlas)'',
                gene_mutations := [''EGFR:L858R'']\<rparr>) = ''LUAD Other'' \<and>
   spec_lung_subtype
     (blank_row\<lparr>study_of_origin := Some ''Lung Adenocarcinoma (TCGA, PanCancer Atlas)'',
                gene_mutations := [''EGFR:L858R'']\<rparr>) = ''LUAD EGFR-mutated''"
  by (simp add: classify_lung_cancer_subtype_def spec_lung_subtype_def blank_row_def)

section \<open>The lung resolver does not read the knowledge base\<close>

text \<open>
  C5. For every lung record and any two knowledge bases, \<open>get_lung_cancer_recommendations\<close>
  returns the same pair of standard and special recommendations: the resolver is driven
  by its branches and never consults the knowledge base.
\<close>

theorem lung_recommendations_ignore_knowledge_base:
  "get_lung_cancer_recommendations list_set patient_data kb1 =
   get_lung_cancer_recommendations list_set patient_data kb2"
  unfolding get_lung_cancer_recommendations_def ..

section \<open>The breast resolver\<close>

text \<open>What the three loops collect: each loop appends to the list it is given.\<close>

lemma probe_biomarker_append:
  "probe_biomarker kb k acc = acc @ probe_biomarker kb k []"
  by (simp add: probe_biomarker_def split: option.splits)

lemma probe_each_append:
  "probe_each kb key_of gs acc = acc @ concat (map (\<lambda>g. probe_biomarker kb (key_of g) []) gs)"
proof (induction gs arbitrary: acc)
  case Nil
  show ?case by simp
next
  case (Cons g gs)
  have "probe_each kb key_of (g # gs) acc
          = probe_biomarker kb (key_of g) acc
            @ concat (map (\<lambda>g. probe_biomarker kb (key_of g) []) gs)"
    by (simp add: Cons.IH)
  also have "\<dots> = acc @ probe_biomarker kb (key_of g) []
                   @ concat (map (\<lambda>g. probe_biomarker kb (key_of g) []) gs)"
    by (subst probe_biomarker_append) simp
  finally show ?case by simp
qed

lemma probe_biomarker_member:
  assumes "special_biomarkers kb k = Some b" and "therapy_options b = Some opts"
    and "opt \<in> set opts"
  shows "(name opt, get_or_empty (indication opt)) \<in> set (probe_biomarker kb k [])"
  using assms by (simp add: probe_biomarker_def)

lemma probe_each_member:
  assumes "g \<in> set gs" and "special_biomarkers kb (key_of g) = Some b"
    and "therapy_options b = Some opts" and "opt \<in> set opts"
  shows "(name opt, get_or_empty (indication opt)) \<in> set (probe_each kb key_of gs acc)"
proof -
  have "(name opt, get_or_empty (indication opt)) \<in> set (probe_biomarker kb (key_of g) [])"
    using assms(2-4) by (rule probe_biomarker_member)
  with assms(1) show ?thesis
    by (subst probe_each_append) auto
qed

lemma probe_each_keeps:
  "x \<in> set acc \<Longrightarrow> x \<in> set (probe_each kb key_of gs acc)"
  by (subst probe_each_append) simp

text \<open>The result when the subtype and the level are both keys of the knowledge base.\<close>

lemma breast_recommendations_present:
  assumes "subtypes kb (breast_cancer_subtype p) = Some entry"
    and "therapy_levels entry (str_int (optimal_therapy_level p)) = Some therapy_data"
  shows "get_breast_cancer_recommendations list_set p kb =
           (map (\<lambda>rec. (therapy rec, get_or_empty (details rec))) (recommendations therapy_data),
            list_set
              (probe_each kb loss_key (gene_deletions p)
                 (probe_each kb amplification_key (gene_amplifications p)
                    (probe_each kb mutation_key (gene_mutations p) []))))"
  using assms by (simp add: get_breast_cancer_recommendations_def Let_def)

lemma breast_recommendations_absent:
  assumes "subtypes kb (breast_cancer_subtype p) = None \<or>
           (\<exists>entry. subtypes kb (breast_cancer_subtype p) = Some entry \<and>
                    therapy_levels entry (str_int (optimal_therapy_level p)) = None)"
  shows "get_breast_cancer_recommendations list_set p kb = ([], [])"
  using assms by (auto simp: get_breast_cancer_recommendations_def Let_def)

lemmas breast_eval =
  get_breast_cancer_recommendations_def example_kb_def blank_row_def str_int_def
  digit_char_def probe_biomarker_def mutation_key_def amplification_key_def loss_key_def
  split_colon_first_def get_or_empty_def

lemma set_order_remdups: "set_order remdups"
  by (simp add: set_order_def)

text \<open>
  C6. For every breast record whose subtype is not a key of \<^verbatim>\<open>knowledge_base["subtypes"]\<close>,
  or whose \<^verbatim>\<open>str(optimal_therapy_level)\<close> is not a key of that subtype's
  \<^verbatim>\<open>therapy_levels\<close>, \<open>get_breast_cancer_recommendations\<close> returns two empty lists (it
  returns a value: nothing is raised); otherwise the standard list is the list of
  (therapy, details) pairs of the recommendations stored under the subtype and the level,
  in their order.
\<close>

theorem breast_lookup_fails_closed:
  "((subtypes kb (breast_cancer_subtype p) = None \<or>
     (\<exists>entry. subtypes kb (breast_cancer_subtype p) = Some entry \<and>
              therapy_levels entry (str_int (optimal_therapy_level p)) = None))
      \<longrightarrow> get_breast_cancer_recommendations list_set p kb = ([], [])) \<and>
   (\<forall>entry therapy_data.
      subtypes kb (breast_cancer_subtype p) = Some entry \<and>
      therapy_levels entry (str_int (optimal_therapy_level p)) = Some therapy_data
      \<longrightarrow> fst (get_breast_cancer_recommendations list_set p kb) =
            map (\<lambda>rec. (therapy rec, get_or_empty (details rec)))
              (recommendations therapy_data))"
  by (auto simp: breast_recommendations_absent breast_recommendations_present)

text \<open>
  The theorem at two records of the example knowledge base: HER2 Enriched is not a key of
  its subtypes, and Triple Negative at level 2 is stored with two recommendations, the
  second without details.
\<close>

theorem breast_lookup_fails_closed_witness:
  "get_breast_cancer_recommendations remdups
     (blank_row\<lparr>breast_cancer_subtype := ''HER2 Enriched'',
                gene_mutations := [''BRCA1:frameshift'']\<rparr>) example_kb = ([], []) \<and>
   fst (get_breast_cancer_recommendations remdups
          (blank_row\<lparr>breast_cancer_subtype := ''Triple Negative''\<rparr>) example_kb) =
     [(''Chemotherapy'', ''Anthracycline and taxane''), (''Surgery'', [])]"
proof
  let ?p = "blank_row\<lparr>breast_cancer_subtype := ''HER2 Enriched'',
                       gene_mutations := [''BRCA1:frameshift'']\<rparr>"
  have absent: "subtypes example_kb (breast_cancer_subtype ?p) = None \<or>
     (\<exists>entry. subtypes example_kb (breast_cancer_subtype ?p) = Some entry \<and>
              therapy_levels entry (str_int (optimal_therapy_level ?p)) = None)"
    by (simp add: example_kb_def blank_row_def)
  from breast_lookup_fails_closed [of example_kb ?p remdups, THEN conjunct1, rule_format,
      OF absent]
  show "get_breast_cancer_recommendations remdups ?p example_kb = ([], [])" .
next
  let ?p = "blank_row\<lparr>breast_cancer_subtype := ''Triple Negative''\<rparr>"
  let ?data = "\<lparr>recommendations =
                  [\<lparr>therapy = ''Chemotherapy'', details = Some ''Anthracycline and taxane''\<rparr>,
                   \<lparr>therapy = ''Surgery'', details = None\<rparr>]\<rparr>"
  let ?entry = "\<lparr>therapy_levels = [''2'' \<mapsto> ?data]\<rparr>"
  have present: "subtypes example_kb (breast_cancer_subtype ?p) = Some ?entry \<and>
      therapy_levels ?entry (str_int (optimal_therapy_level ?p)) = Some ?data"
    by (simp add: example_kb_def blank_row_def str_int_def digit_char_def)
  from breast_lookup_fails_closed [of example_kb ?p remdups, THEN conjunct2, rule_format,
      OF present]
  show "fst (get_breast_cancer_recommendations remdups ?p example_kb) =
     [(''Chemotherapy'', ''Anthracycline and taxane''), (''Surgery'', [])]"
    by (simp add: get_or_empty_def)
qed

text \<open>
  C7. The claim: when the subtype and level combination is missing from the subtypes
  table, the special list is unaffected, and a mutated, amplified or deleted gene whose
  biomarker key is in \<^verbatim>\<open>special_biomarkers\<close> still gets that entry's therapy options.
  The code returns \<^verbatim>\<open>[], []\<close> at lines 96 to 101, before any biomarker is probed. In the
  example knowledge base HER2 Enriched is not a subtype, the record has the mutation
  \<^verbatim>\<open>BRCA1:frameshift\<close>, the key \<^verbatim>\<open>BRCA1_mutation\<close> is present with one therapy option,
  and the option is not in the special list.
\<close>

theorem special_list_empty_without_entry:
  "subtypes example_kb
     (breast_cancer_subtype
        (blank_row\<lparr>breast_cancer_subtype := ''HER2 Enriched'',
                   gene_mutations := [''BRCA1:frameshift'']\<rparr>)) = None \<and>
   mutation_key ''BRCA1:frameshift'' = ''BRCA1_mutation'' \<and>
   special_biomarkers example_kb ''BRCA1_mutation'' =
     Some \<lparr>therapy_options =
             Some [\<lparr>name = ''PARP inhibitor'', indication = Some ''Germline BRCA mutation''\<rparr>]\<rparr> \<and>
   (''PARP inhibitor'', ''Germline BRCA mutation'') \<notin>
     set (snd (get_breast_cancer_recommendations remdups
                 (blank_row\<lparr>breast_cancer_subtype := ''HER2 Enriched'',
                            gene_mutations := [''BRCA1:frameshift'']\<rparr>) example_kb))"
  by (simp add: breast_eval)

text \<open>
  C7, amended. When the subtype or the level is missing from the subtypes table the
  special list is empty, like the standard list. When both are present, every biomarker
  key of the record (\<^verbatim>\<open><gene>_mutation\<close> for a mutation, \<^verbatim>\<open><gene>_amplification\<close> for an
  amplified gene, \<^verbatim>\<open><gene>_loss\<close> for a deleted gene) that is in \<^verbatim>\<open>special_biomarkers\<close>
  contributes each of its therapy options to the special list.
\<close>

theorem breast_special_recommendations:
  assumes "set_order list_set"
  shows
    "((subtypes kb (breast_cancer_subtype p) = None \<or>
       (\<exists>entry. subtypes kb (breast_cancer_subtype p) = Some entry \<and>
                therapy_levels entry (str_int (optimal_therapy_level p)) = None))
        \<longrightarrow> snd (get_breast_cancer_recommendations list_set p kb) = []) \<and>
     (\<forall>entry therapy_data key b opts opt.
        subtypes kb (breast_cancer_subtype p) = Some entry \<and>
        therapy_levels entry (str_int (optimal_therapy_level p)) = Some therapy_data \<and>
        key \<in> biomarker_keys p \<and> special_biomarkers kb key = Some b \<and>
        therapy_options b = Some opts \<and> opt \<in> set opts
        \<longrightarrow> (name opt, get_or_empty (indication opt))
              \<in> set (snd (get_breast_cancer_recommendations list_set p kb)))"
proof (intro conjI allI impI)
  assume "subtypes kb (breast_cancer_subtype p) = None \<or>
       (\<exists>entry. subtypes kb (breast_cancer_subtype p) = Some entry \<and>
                therapy_levels entry (str_int (optimal_therapy_level p)) = None)"
  then show "snd (get_breast_cancer_recommendations list_set p kb) = []"
    by (simp add: breast_recommendations_absent)
next
  fix entry therapy_data key b opts opt
  assume a: "subtypes kb (breast_cancer_subtype p) = Some entry \<and>
        therapy_levels entry (str_int (optimal_therapy_level p)) = Some therapy_data \<and>
        key \<in> biomarker_keys p \<and> special_biomarkers kb key = Some b \<and>
        therapy_options b = Some opts \<and> opt \<in> set opts"
  let ?x = "(name opt, get_or_empty (indication opt))"
  let ?m = "probe_each kb mutation_key (gene_mutations p) []"
  let ?a = "probe_each kb amplification_key (gene_amplifications p) ?m"
  let ?d = "probe_each kb loss_key (gene_deletions p) ?a"
  from a have key: "key \<in> biomarker_keys p" and b: "special_biomarkers kb key = Some b"
    and opts: "therapy_options b = Some opts" and opt: "opt \<in> set opts"
    by simp_all
  from key consider
      (mutation) g where "g \<in> set (gene_mutations p)" "key = mutation_key g"
    | (amplification) g where "g \<in> set (gene_amplifications p)" "key = amplification_key g"
    | (deletion) g where "g \<in> set (gene_deletions p)" "key = loss_key g"
    by (auto simp: biomarker_keys_def)
  then have "?x \<in> set ?d"
  proof cases
    case mutation
    with b opts opt have "?x \<in> set ?m" by (auto intro: probe_each_member)
    then show ?thesis by (simp add: probe_each_keeps)
  next
    case amplification
    with b opts opt have "?x \<in> set ?a" by (auto intro: probe_each_member)
    then show ?thesis by (simp add: probe_each_keeps)
  next
    case deletion
    with b opts opt show ?thesis by (auto intro: probe_each_member)
  qed
  moreover have "set (list_set ?d) = set ?d"
    using assms by (simp add: set_order_def)
  ultimately show "?x \<in> set (snd (get_breast_cancer_recommendations list_set p kb))"
    using a by (simp add: breast_recommendations_present)
qed

text \<open>
  The theorem at the record of the counterexample, and at a Triple Negative record of
  level 2 with the same mutation, where the entry is present.
\<close>

theorem breast_special_recommendations_witness:
  "set_order remdups \<and>
   snd (get_breast_cancer_recommendations remdups
          (blank_row\<lparr>breast_cancer_subtype := ''HER2 Enriched'',
                     gene_mutations := [''BRCA1:frameshift'']\<rparr>) example_kb) = [] \<and>
   (''PARP inhibitor'', ''Germline BRCA mutation'') \<in>
     set (snd (get_breast_cancer_recommendations remdups
                 (blank_row\<lparr>breast_cancer_subtype := ''Triple Negative'',
                            gene_mutations := [''BRCA1:frameshift'']\<rparr>) example_kb))"
proof (intro conjI)
  show "set_order remdups" by (rule set_order_remdups)
next
  let ?p = "blank_row\<lparr>breast_cancer_subtype := ''HER2 Enriched'',
                       gene_mutations := [''BRCA1:frameshift'']\<rparr>"
  have absent: "subtypes example_kb (breast_cancer_subtype ?p) = None \<or>
     (\<exists>entry. subtypes example_kb (breast_cancer_subtype ?p) = Some entry \<and>
              therapy_levels entry (str_int (optimal_therapy_level ?p)) = None)"
    by (simp add: example_kb_def blank_row_def)
  from breast_special_recommendations [OF set_order_remdups, of example_kb ?p,
      THEN conjunct1, rule_format, OF absent]
  show "snd (get_breast_cancer_recommendations remdups ?p example_kb) = []" .
next
  let ?p = "blank_row\<lparr>breast_cancer_subtype := ''Triple Negative'',
                       gene_mutations := [''BRCA1:frameshift'']\<rparr>"
  let ?data = "\<lparr>recommendations =
                  [\<lparr>therapy = ''Chemotherapy'', details = Some ''Anthracycline and taxane''\<rparr>,
                   \<lparr>therapy = ''Surgery'', details = None\<rparr>]\<rparr>"
  let ?entry = "\<lparr>therapy_levels = [''2'' \<mapsto> ?data]\<rparr>"
  let ?opt = "\<lparr>name = ''PARP inhibitor'', indication = Some ''Germline BRCA mutation''\<rparr>"
  have present: "subtypes example_kb (breast_cancer_subtype ?p) = Some ?entry \<and>
      therapy_levels ?entry (str_int (optimal_therapy_level ?p)) = Some ?data \<and>
      ''BRCA1_mutation'' \<in> biomarker_keys ?p \<and>
      special_biomarkers example_kb ''BRCA1_mutation'' = Some \<lparr>therapy_options = Some [?opt]\<rparr> \<and>
      therapy_options \<lparr>therapy_options = Some [?opt]\<rparr> = Some [?opt] \<and> ?opt \<in> set [?opt]"
    by (simp add: example_kb_def blank_row_def str_int_def digit_char_def biomarker_keys_def
        mutation_key_def split_colon_first_def)
  from breast_special_recommendations [OF set_order_remdups, of example_kb ?p,
      THEN conjunct2, rule_format, OF present]
  show "(''PARP inhibitor'', ''Germline BRCA mutation'') \<in>
     set (snd (get_breast_cancer_recommendations remdups ?p example_kb))"
    by (simp add: get_or_empty_def)
qed

section \<open>The special list has no duplicates\<close>

lemma set_order_set: "set_order list_set \<Longrightarrow> set (list_set xs) = set xs"
  by (simp add: set_order_def)

lemma set_order_distinct: "set_order list_set \<Longrightarrow> distinct (list_set xs)"
  by (simp add: set_order_def)

lemma set_order_Nil: "set_order list_set \<Longrightarrow> list_set [] = []"
  using set_order_set [of list_set "[]"] by simp

lemmas lung_eval =
  get_lung_cancer_recommendations_def blank_row_def lower_def lower_char_def

text \<open>
  C8. For every record and knowledge base, the special list of either resolver holds no
  (name, indication) pair twice, whatever order the set is listed in; two altered genes
  whose biomarker entries give the same therapy option yield one entry.
\<close>

theorem special_recommendations_distinct:
  assumes "set_order list_set"
  shows "distinct (snd (get_breast_cancer_recommendations list_set p kb)) \<and>
         distinct (snd (get_lung_cancer_recommendations list_set p kb))"
proof
  show "distinct (snd (get_breast_cancer_recommendations list_set p kb))"
    using assms
    by (simp add: get_breast_cancer_recommendations_def Let_def set_order_distinct
        split: option.splits)
next
  show "distinct (snd (get_lung_cancer_recommendations list_set p kb))"
    using assms
    by (simp add: get_lung_cancer_recommendations_def Let_def set_order_distinct)
qed

text \<open>
  The theorem at a Triple Negative record with a BRCA1 and a BRCA2 mutation: both
  biomarker entries of the example knowledge base offer the same PARP inhibitor, and the
  special list holds it once.
\<close>

theorem special_recommendations_distinct_witness:
  "set_order remdups \<and>
   distinct (snd (get_breast_cancer_recommendations remdups
                    (blank_row\<lparr>breast_cancer_subtype := ''Triple Negative'',
                               gene_mutations := [''BRCA1:frameshift'', ''BRCA2:nonsense'']\<rparr>)
                    example_kb)) \<and>
   distinct (snd (get_lung_cancer_recommendations remdups
                    (blank_row\<lparr>lung_cancer_subtype := ''LUAD EGFR-mutated'',
                               gene_mutations := [''EGFR:T790M'', ''EGFR:exon20 insertion'']\<rparr>)
                    example_kb)) \<and>
   snd (get_breast_cancer_recommendations remdups
          (blank_row\<lparr>breast_cancer_subtype := ''Triple Negative'',
                     gene_mutations := [''BRCA1:frameshift'', ''BRCA2:nonsense'']\<rparr>)
          example_kb) = [(''PARP inhibitor'', ''Germline BRCA mutation'')]"
proof (intro conjI)
  show "set_order remdups" by (rule set_order_remdups)
next
  from special_recommendations_distinct [OF set_order_remdups, THEN conjunct1]
  show "distinct (snd (get_breast_cancer_recommendations remdups
                    (blank_row\<lparr>breast_cancer_subtype := ''Triple Negative'',
                               gene_mutations := [''BRCA1:frameshift'', ''BRCA2:nonsense'']\<rparr>)
                    example_kb))" .
next
  from special_recommendations_distinct [OF set_order_remdups, THEN conjunct2]
  show "distinct (snd (get_lung_cancer_recommendations remdups
                    (blank_row\<lparr>lung_cancer_subtype := ''LUAD EGFR-mutated'',
                               gene_mutations := [''EGFR:T790M'', ''EGFR:exon20 insertion'']\<rparr>)
                    example_kb))" .
next
  show "snd (get_breast_cancer_recommendations remdups
          (blank_row\<lparr>breast_cancer_subtype := ''Triple Negative'',
                     gene_mutations := [''BRCA1:frameshift'', ''BRCA2:nonsense'']\<rparr>)
          example_kb) = [(''PARP inhibitor'', ''Germline BRCA mutation'')]"
    by (simp add: breast_eval)
qed

section \<open>The lung resolver's triggers\<close>

text \<open>
  C9. The claim: in the EGFR-mutated branch a mutation containing exon20 (in any case),
  one containing T790M and one containing C797S each trigger a special recommendation,
  and in the KRAS-mutated branch one containing G12C does. The resolver never looks for
  C797S: an EGFR-mutated record of level 3 whose only mutation is \<^verbatim>\<open>EGFR:C797S\<close> gets an
  empty special list.
\<close>

theorem c797s_triggers_no_special_recommendation:
  "py_in ''EGFR-mutated''
     (lung_cancer_subtype
        (blank_row\<lparr>lung_cancer_subtype := ''LUAD EGFR-mutated'',
                   gene_mutations := [''EGFR:C797S''], optimal_therapy_level := 3\<rparr>)) \<and>
   list_ex (\<lambda>m. py_in ''C797S'' m)
     (gene_mutations
        (blank_row\<lparr>lung_cancer_subtype := ''LUAD EGFR-mutated'',
                   gene_mutations := [''EGFR:C797S''], optimal_therapy_level := 3\<rparr>)) \<and>
   snd (get_lung_cancer_recommendations remdups
          (blank_row\<lparr>lung_cancer_subtype := ''LUAD EGFR-mutated'',
                     gene_mutations := [''EGFR:C797S''], optimal_therapy_level := 3\<rparr>)
          example_kb) = []"
  by (simp add: lung_eval)

text \<open>
  C9, amended. In the EGFR-mutated branch a mutation containing exon20 (in any case)
  puts Amivantamab on the special list and one containing T790M puts Osimertinib on it;
  nothing else does, so a record with neither gets an empty special list, C797S or not.
  In the KRAS-mutated branch a mutation containing G12C puts Sotorasib or Adagrasib on
  the special list.
\<close>

theorem lung_trigger_recommendations:
  assumes "set_order list_set"
  shows
    "(py_in ''EGFR-mutated'' (lung_cancer_subtype p) \<longrightarrow>
        (list_ex (\<lambda>m. py_in ''exon20'' (lower m)) (gene_mutations p) \<longrightarrow>
           (''Amivantamab'', ''FDA-approved for EGFR exon20 insertion mutations'')
             \<in> set (snd (get_lung_cancer_recommendations list_set p kb))) \<and>
        (list_ex (\<lambda>m. py_in ''T790M'' m) (gene_mutations p) \<longrightarrow>
           (''Osimertinib'', ''Effective against T790M resistance mutation'')
             \<in> set (snd (get_lung_cancer_recommendations list_set p kb))) \<and>
        (\<not> list_ex (\<lambda>m. py_in ''exon20'' (lower m)) (gene_mutations p) \<and>
         \<not> list_ex (\<lambda>m. py_in ''T790M'' m) (gene_mutations p) \<longrightarrow>
           snd (get_lung_cancer_recommendations list_set p kb) = [])) \<and>
     (\<not> py_in ''EGFR-mutated'' (lung_cancer_subtype p) \<and>
      \<not> py_in ''ALK-rearranged'' (lung_cancer_subtype p) \<and>
      \<not> py_in ''ROS1-rearranged'' (lung_cancer_subtype p) \<and>
      py_in ''KRAS-mutated'' (lung_cancer_subtype p) \<and>
      list_ex (\<lambda>m. py_in ''G12C'' m) (gene_mutations p) \<longrightarrow>
        (''Sotorasib or Adagrasib'', ''FDA-approved for KRAS G12C mutation'')
          \<in> set (snd (get_lung_cancer_recommendations list_set p kb)))"
  using assms
  by (simp add: get_lung_cancer_recommendations_def Let_def set_order_set set_order_Nil)

text \<open>
  The theorem at an EGFR-mutated record with an exon 20 insertion and T790M, at the
  record of the counterexample, and at a KRAS-mutated record with G12C.
\<close>

theorem lung_trigger_recommendations_witness:
  "set_order remdups \<and>
   (''Amivantamab'', ''FDA-approved for EGFR exon20 insertion mutations'')
     \<in> set (snd (get_lung_cancer_recommendations remdups
                  (blank_row\<lparr>lung_cancer_subtype := ''LUAD EGFR-mutated'',
                             gene_mutations := [''EGFR:Exon20 insertion'', ''EGFR:T790M'']\<rparr>)
                  example_kb)) \<and>
   (''Osimertinib'', ''Effective against T790M resistance mutation'')
     \<in> set (snd (get_lung_cancer_recommendations remdups
                  (blank_row\<lparr>lung_cancer_subtype := ''LUAD EGFR-mutated'',
                             gene_mutations := [''EGFR:Exon20 insertion'', ''EGFR:T790M'']\<rparr>)
                  example_kb)) \<and>
   snd (get_lung_cancer_recommendations remdups
          (blank_row\<lparr>lung_cancer_subtype := ''LUAD EGFR-mutated'',
                     gene_mutations := [''EGFR:C797S''], optimal_therapy_level := 3\<rparr>)
          example_kb) = [] \<and>
   (''Sotorasib or Adagrasib'', ''FDA-approved for KRAS G12C mutation'')
     \<in> set (snd (get_lung_cancer_recommendations remdups
                  (blank_row\<lparr>lung_cancer_subtype := ''LUAD KRAS-mutated'',
                             gene_mutations := [''KRAS:G12C'']\<rparr>)
                  example_kb))"
proof -
  let ?e = "blank_row\<lparr>lung_cancer_subtype := ''LUAD EGFR-mutated'',
                       gene_mutations := [''EGFR:Exon20 insertion'', ''EGFR:T790M'']\<rparr>"
  let ?c = "blank_row\<lparr>lung_cancer_subtype := ''LUAD EGFR-mutated'',
                       gene_mutations := [''EGFR:C797S''], optimal_therapy_level := 3\<rparr>"
  let ?k = "blank_row\<lparr>lung_cancer_subtype := ''LUAD KRAS-mutated'',
                       gene_mutations := [''KRAS:G12C'']\<rparr>"
  note trig = lung_trigger_recommendations [OF set_order_remdups]
  have egfr_e: "py_in ''EGFR-mutated'' (lung_cancer_subtype ?e)"
    and exon20: "list_ex (\<lambda>m. py_in ''exon20'' (lower m)) (gene_mutations ?e)"
    and t790m: "list_ex (\<lambda>m. py_in ''T790M'' m) (gene_mutations ?e)"
    by (simp_all add: blank_row_def lower_def lower_char_def)
  have egfr_c: "py_in ''EGFR-mutated'' (lung_cancer_subtype ?c)"
    and neither: "\<not> list_ex (\<lambda>m. py_in ''exon20'' (lower m)) (gene_mutations ?c) \<and>
                  \<not> list_ex (\<lambda>m. py_in ''T790M'' m) (gene_mutations ?c)"
    by (simp_all add: blank_row_def lower_def lower_char_def)
  have kras: "\<not> py_in ''EGFR-mutated'' (lung_cancer_subtype ?k) \<and>
      \<not> py_in ''ALK-rearranged'' (lung_cancer_subtype ?k) \<and>
      \<not> py_in ''ROS1-rearranged'' (lung_cancer_subtype ?k) \<and>
      py_in ''KRAS-mutated'' (lung_cancer_subtype ?k) \<and>
      list_ex (\<lambda>m. py_in ''G12C'' m) (gene_mutations ?k)"
    by (simp add: blank_row_def)
  note in_egfr_e = trig [of ?e example_kb, THEN conjunct1, rule_format, OF egfr_e]
  note in_egfr_c = trig [of ?c example_kb, THEN conjunct1, rule_format, OF egfr_c]
  have 1: "(''Amivantamab'', ''FDA-approved for EGFR exon20 insertion mutations'')
     \<in> set (snd (get_lung_cancer_recommendations remdups ?e example_kb))"
    using in_egfr_e [THEN conjunct1, rule_format, OF exon20] .
  have 2: "(''Osimertinib'', ''Effective against T790M resistance mutation'')
     \<in> set (snd (get_lung_cancer_recommendations remdups ?e example_kb))"
    using in_egfr_e [THEN conjunct2, THEN conjunct1, rule_format, OF t790m] .
  have 3: "snd (get_lung_cancer_recommendations remdups ?c example_kb) = []"
    using in_egfr_c [THEN conjunct2, THEN conjunct2, rule_format, OF neither] .
  have 4: "(''Sotorasib or Adagrasib'', ''FDA-approved for KRAS G12C mutation'')
     \<in> set (snd (get_lung_cancer_recommendations remdups ?k example_kb))"
    using trig [of ?k example_kb, THEN conjunct2, rule_format, OF kras] .
  from set_order_remdups 1 2 3 4 show ?thesis by (intro conjI)
qed

section \<open>Ties go to the even level\<close>

lemma breast_tie:
  assumes tie: "py_value (breast_base_level row)
                  - of_int \<lfloor>py_value (breast_base_level row)\<rfloor> = 1 / 2"
  shows "\<not> (''MYC'' \<in> set (gene_amplifications row) \<or> ''CCND1'' \<in> set (gene_amplifications row))"
    and "\<not> (''PTEN'' \<in> set (gene_deletions row) \<or> ''RB1'' \<in> set (gene_deletions row))"
    and "breast_base_level row = breast_halves row"
proof -
  let ?a = "''MYC'' \<in> set (gene_amplifications row) \<or> ''CCND1'' \<in> set (gene_amplifications row)"
  let ?d = "''PTEN'' \<in> set (gene_deletions row) \<or> ''RB1'' \<in> set (gene_deletions row)"
  have "\<not> (?a \<or> ?d)"
  proof
    assume "?a \<or> ?d"
    then have "py_value (breast_base_level row)
                 - of_int \<lfloor>py_value (breast_base_level row)\<rfloor> \<noteq> 1 / 2"
      unfolding breast_base_level_steps
      by (rule inexact_steps (2) [OF breast_halves_grid])
    with tie show False by simp
  qed
  then show "\<not> ?a" and "\<not> ?d" by simp_all
  then show "breast_base_level row = breast_halves row"
    unfolding breast_base_level_steps by (simp only: add_if_def if_False)
qed

text \<open>
  C10. The rounding of the code is round-half-to-even. Whenever the accumulated score
  ends in exactly .5, the level is the even one of the two nearest integers; such a score
  comes from the adjustments by 0.5 and 1 alone (neither the 0.3 nor the 0.4 adjustment
  was applied) and equals the exact sum. A HER2 Enriched breast record with no other
  adjustment has score 2.5 and level 2; a Triple Negative record with a TP53 mutation and
  nothing else has score 3.5 and level 4.
\<close>

theorem ties_round_to_even:
  "(py_value (breast_base_level row) - of_int \<lfloor>py_value (breast_base_level row)\<rfloor> = 1 / 2
      \<longrightarrow> even (determine_breast_therapy_level row) \<and>
          \<bar>of_int (determine_breast_therapy_level row) - py_value (breast_base_level row)\<bar>
            = 1 / 2 \<and>
          py_value (breast_base_level row) = spec_breast_score row \<and>
          \<not> (''MYC'' \<in> set (gene_amplifications row) \<or>
             ''CCND1'' \<in> set (gene_amplifications row)) \<and>
          \<not> (''PTEN'' \<in> set (gene_deletions row) \<or> ''RB1'' \<in> set (gene_deletions row))) \<and>
   (py_value (lung_base_level row) - of_int \<lfloor>py_value (lung_base_level row)\<rfloor> = 1 / 2
      \<longrightarrow> even (determine_lung_therapy_level row) \<and>
          \<bar>of_int (determine_lung_therapy_level row) - py_value (lung_base_level row)\<bar>
            = 1 / 2 \<and>
          py_value (lung_base_level row) = spec_lung_score row) \<and>
   py_value (breast_base_level (blank_row\<lparr>breast_cancer_subtype := ''HER2 Enriched''\<rparr>))
     = 5 / 2 \<and>
   determine_breast_therapy_level (blank_row\<lparr>breast_cancer_subtype := ''HER2 Enriched''\<rparr>)
     = 2 \<and>
   py_value (breast_base_level (blank_row\<lparr>breast_cancer_subtype := ''Triple Negative'',
                                          gene_mutations := [''TP53:R175H'']\<rparr>))
     = 7 / 2 \<and>
   determine_breast_therapy_level (blank_row\<lparr>breast_cancer_subtype := ''Triple Negative'',
                                              gene_mutations := [''TP53:R175H'']\<rparr>)
     = 4"
proof (intro conjI impI)
  assume tie: "py_value (breast_base_level row)
                 - of_int \<lfloor>py_value (breast_base_level row)\<rfloor> = 1 / 2"
  note t = breast_tie [OF tie]
  from tie have tie': "py_value (breast_halves row)
                         - of_int \<lfloor>py_value (breast_halves row)\<rfloor> = 1 / 2"
    by (simp only: t(3))
  have level: "determine_breast_therapy_level row
                 = max 1 (min 4 (round_half_even (py_value (breast_halves row))))"
    by (simp only: determine_breast_therapy_level_def py_round_value t(3))
  show "even (determine_breast_therapy_level row)"
    unfolding level by (rule grid_tie (1) [OF breast_halves_grid tie'])
  show "\<bar>of_int (determine_breast_therapy_level row) - py_value (breast_base_level row)\<bar>
          = 1 / 2"
    unfolding level t(3) by (rule grid_tie (2) [OF breast_halves_grid tie'])
  show "py_value (breast_base_level row) = spec_breast_score row"
    using t(1,2) by (simp add: t(3) breast_halves_value spec_breast_score_def)
  show "\<not> (''MYC'' \<in> set (gene_amplifications row) \<or> ''CCND1'' \<in> set (gene_amplifications row))"
    by (rule t(1))
  show "\<not> (''PTEN'' \<in> set (gene_deletions row) \<or> ''RB1'' \<in> set (gene_deletions row))"
    by (rule t(2))
next
  assume tie: "py_value (lung_base_level row)
                 - of_int \<lfloor>py_value (lung_base_level row)\<rfloor> = 1 / 2"
  have level: "determine_lung_therapy_level row
                 = max 1 (min 4 (round_half_even (py_value (lung_base_level row))))"
    by (simp only: determine_lung_therapy_level_def py_round_value)
  show "even (determine_lung_therapy_level row)"
    unfolding level by (rule grid_tie (1) [OF lung_base_level_grid tie])
  show "\<bar>of_int (determine_lung_therapy_level row) - py_value (lung_base_level row)\<bar> = 1 / 2"
    unfolding level by (rule grid_tie (2) [OF lung_base_level_grid tie])
  show "py_value (lung_base_level row) = spec_lung_score row"
    by (rule lung_base_level_value)
next
  show v: "py_value (breast_base_level (blank_row\<lparr>breast_cancer_subtype := ''HER2 Enriched''\<rparr>))
          = 5 / 2"
    by (simp add: breast_base_level_def blank_row_def Let_def float_lits double_grid)
  show "determine_breast_therapy_level
               (blank_row\<lparr>breast_cancer_subtype := ''HER2 Enriched''\<rparr>) = 2"
    unfolding determine_breast_therapy_level_def py_round_value v
    by (simp add: round_half_even_def floor_rat_numeral)
next
  show v: "py_value (breast_base_level (blank_row\<lparr>breast_cancer_subtype := ''Triple Negative'',
                                                 gene_mutations := [''TP53:R175H'']\<rparr>))
          = 7 / 2"
    by (simp add: breast_base_level_def blank_row_def Let_def float_lits double_grid)
  show "determine_breast_therapy_level
               (blank_row\<lparr>breast_cancer_subtype := ''Triple Negative'',
                          gene_mutations := [''TP53:R175H'']\<rparr>) = 4"
    unfolding determine_breast_therapy_level_def py_round_value v
    by (simp add: round_half_even_def floor_rat_numeral)
qed

text \<open>
  The theorem at a Luminal A/B breast record (score 1.5) and at an ALK-rearranged lung
  record (score 2.5): both are ties, and both get level 2.
\<close>

theorem ties_round_to_even_witness:
  "even (determine_breast_therapy_level (blank_row\<lparr>breast_cancer_subtype := ''Luminal A/B''\<rparr>)) \<and>
   \<bar>of_int (determine_breast_therapy_level (blank_row\<lparr>breast_cancer_subtype := ''Luminal A/B''\<rparr>))
      - py_value (breast_base_level (blank_row\<lparr>breast_cancer_subtype := ''Luminal A/B''\<rparr>))\<bar>
     = 1 / 2 \<and>
   py_value (breast_base_level (blank_row\<lparr>breast_cancer_subtype := ''Luminal A/B''\<rparr>)) = 3 / 2 \<and>
   even (determine_lung_therapy_level
           (blank_row\<lparr>lung_cancer_subtype := ''LUAD ALK-rearranged''\<rparr>)) \<and>
   py_value (lung_base_level (blank_row\<lparr>lung_cancer_subtype := ''LUAD ALK-rearranged''\<rparr>))
     = 5 / 2"
proof -
  let ?b = "blank_row\<lparr>breast_cancer_subtype := ''Luminal A/B''\<rparr>"
  let ?l = "blank_row\<lparr>lung_cancer_subtype := ''LUAD ALK-rearranged''\<rparr>"
  have vb: "py_value (breast_base_level ?b) = 3 / 2"
    by (simp add: breast_base_level_def blank_row_def Let_def float_lits double_grid)
  have vl: "py_value (lung_base_level ?l) = 5 / 2"
    by (simp add: lung_base_level_def blank_row_def Let_def float_lits double_grid)
  have tie_b: "py_value (breast_base_level ?b) - of_int \<lfloor>py_value (breast_base_level ?b)\<rfloor>
                 = 1 / 2"
    unfolding vb by (simp add: floor_rat_numeral)
  have tie_l: "py_value (lung_base_level ?l) - of_int \<lfloor>py_value (lung_base_level ?l)\<rfloor>
                 = 1 / 2"
    unfolding vl by (simp add: floor_rat_numeral)
  note b = ties_round_to_even [of ?b, THEN conjunct1, rule_format, OF tie_b]
  note l = ties_round_to_even [of ?l, THEN conjunct2, THEN conjunct1, rule_format, OF tie_l]
  from b [THEN conjunct1] b [THEN conjunct2, THEN conjunct1] vb l [THEN conjunct1] vl
  show ?thesis by (intro conjI)
qed

end
